theory Spec2Isabelle
  imports Complex_Main "HOL-Library.Log_Nat" "HOL-Library.Multiset"
begin

section \<open>Invoice statistics of \<open>lib/firebase/firestore.ts\<close>\<close>

text \<open>
  The development embeds \<open>getInvoiceStats\<close> (lines 213 to 249 of
  \<open>src/lib/firebase/firestore.ts\<close>): the statistics record it initialises, the
  callback it passes to \<open>forEach\<close>, the clock it reads and the \<open>try\<close>/\<open>catch\<close>
  around them, together with the \<open>try\<close>/\<open>catch\<close> of \<open>getUserInvoices\<close> (lines 57
  to 83), which it awaits.
\<close>

subsection \<open>Numbers\<close>

text \<open>
  \<open>invoice.total\<close>, \<open>stats.totalRevenue\<close> and \<open>stats.outstandingAmount\<close> are
  TypeScript \<open>number\<close>s, that is IEEE 754 binary64 values, and \<open>+=\<close> on them is
  binary64 addition: the exact sum rounded to the nearest representable value, ties to
  the even significand. A finite value is kept as the rational it denotes; the two
  zeros, which \<open>===\<close> and \<open><\<close> do not tell apart, are one value.
\<close>

datatype number = Finite rat | PosInfinity | NegInfinity | NaN

definition roundTiesToEven :: "rat \<Rightarrow> int" where
  "roundTiesToEven x =
     (let f = \<lfloor>x\<rfloor>; d = x - of_int f
      in if d < 1 / 2 then f
         else if 1 / 2 < d then f + 1
         else if even f then f else f + 1)"

text \<open>
  Every finite binary64 value is a multiple of \<open>2^-1074\<close>. With \<open>n\<close> the argument in
  that unit, the significand keeps 53 bits: \<open>shift\<close> is the number of low bits of \<open>n\<close>
  that are rounded away (none for a subnormal result), and a result of magnitude
  \<open>2^1024\<close> or more overflows to an infinity.
\<close>

definition roundToDouble :: "rat \<Rightarrow> number" where
  "roundToDouble q =
     (let n = q * 2 ^ 1074;
          shift = nat (bitlen \<lfloor>\<bar>n\<bar>\<rfloor> - 53);
          r = of_int (roundTiesToEven (n / 2 ^ shift)) * 2 ^ shift / 2 ^ 1074
      in if 2 ^ 1024 \<le> r then PosInfinity
         else if r \<le> - (2 ^ 1024) then NegInfinity
         else Finite r)"

fun js_add :: "number \<Rightarrow> number \<Rightarrow> number" where
  "js_add NaN _ = NaN"
| "js_add _ NaN = NaN"
| "js_add PosInfinity NegInfinity = NaN"
| "js_add NegInfinity PosInfinity = NaN"
| "js_add PosInfinity _ = PosInfinity"
| "js_add _ PosInfinity = PosInfinity"
| "js_add NegInfinity _ = NegInfinity"
| "js_add _ NegInfinity = NegInfinity"
| "js_add (Finite a) (Finite b) = roundToDouble (a + b)"

text \<open>
  Amounts in whole currency units: a number is whole when it is a non-negative integer,
  \<open>wholeValue\<close> is that integer, and \<open>exactValue\<close> is the rational a finite number
  denotes. They are used to say when the additions of the aggregation are exact.
\<close>

definition isWhole :: "number \<Rightarrow> bool" where
  "isWhole x = (case x of Finite q \<Rightarrow> 0 \<le> q \<and> q = of_int \<lfloor>q\<rfloor> | _ \<Rightarrow> False)"

definition wholeValue :: "number \<Rightarrow> nat" where
  "wholeValue x = (case x of Finite q \<Rightarrow> nat \<lfloor>q\<rfloor> | _ \<Rightarrow> 0)"

definition exactValue :: "number \<Rightarrow> rat" where
  "exactValue x = (case x of Finite q \<Rightarrow> q | _ \<Rightarrow> 0)"

subsection \<open>Invoices and statistics\<close>

text \<open>
  Modelled from the spec: the declarations of \<open>InvoiceStatus\<close>, \<open>Invoice\<close> and
  \<open>InvoiceStats\<close> (imported from \<open>../types\<close>, whose index file is not among the
  sources). The spec gives the status as the closed enumeration draft, sent, paid,
  overdue, cancelled; the code compares it with the literal \<open>"paid"\<close> only. Of an
  invoice the aggregation reads \<open>status\<close>, \<open>total\<close> and \<open>dueDate\<close>; the fields it never
  reads are left out. A \<open>Date\<close> is its time value, the milliseconds since
  the epoch, which is what \<open><\<close> compares; \<open>getUserInvoices\<close> builds every \<open>dueDate\<close>
  with \<open>toDate()\<close> or \<open>new Date()\<close>, so it always has one.
\<close>

datatype InvoiceStatus = draft | sent | paid | overdue | cancelled

record Invoice =
  status :: InvoiceStatus
  total :: number
  dueDate :: int

text \<open>
  The four counters are \<open>number\<close>s too, but they start at an array length or at zero
  and only ever grow by \<open>++\<close> up to the array's length, which is below \<open>2^32\<close>; every
  such value is an integer that binary64 holds exactly, so they are naturals here.
\<close>

record InvoiceStats =
  totalInvoices :: nat
  paidInvoices :: nat
  unpaidInvoices :: nat
  overdueInvoices :: nat
  totalRevenue :: number
  outstandingAmount :: number

subsection \<open>The aggregation\<close>

text \<open>The object literal of lines 219 to 226.\<close>

definition initialStats :: "Invoice list \<Rightarrow> InvoiceStats" where
  "initialStats invoices =
     \<lparr>totalInvoices = length invoices,
      paidInvoices = 0,
      unpaidInvoices = 0,
      overdueInvoices = 0,
      totalRevenue = Finite 0,
      outstandingAmount = Finite 0\<rparr>"

text \<open>
  The callback of \<open>forEach\<close> (lines 230 to 242), with the mutated \<open>stats\<close> object
  passed in and returned. The inner test repeats \<open>status !== "paid"\<close> as the source does.
\<close>

definition tally :: "int \<Rightarrow> Invoice \<Rightarrow> InvoiceStats \<Rightarrow> InvoiceStats" where
  "tally today invoice stats =
     (if status invoice = paid then
        stats\<lparr>paidInvoices := paidInvoices stats + 1,
              totalRevenue := js_add (totalRevenue stats) (total invoice)\<rparr>
      else
        (let stats' = stats\<lparr>unpaidInvoices := unpaidInvoices stats + 1,
                            outstandingAmount := js_add (outstandingAmount stats) (total invoice)\<rparr>
         in if dueDate invoice < today \<and> status invoice \<noteq> paid
            then stats'\<lparr>overdueInvoices := overdueInvoices stats' + 1\<rparr>
            else stats'))"

text \<open>
  Lines 219 to 244 as a function of the fetched array and of the instant held by
  \<open>today\<close>: \<open>forEach\<close> visits the array from index 0 upwards. The spec calls this
  \<open>computeStats\<close>.
\<close>

definition computeStats :: "Invoice list \<Rightarrow> int \<Rightarrow> InvoiceStats" where
  "computeStats invoices today = fold (tally today) invoices (initialStats invoices)"

subsection \<open>The exported function\<close>

text \<open>
  \<open>getInvoiceStats\<close> receives a user id only. What it reads besides is part of the
  world it runs in: the outcome of the \<open>try\<close> block of \<open>getUserInvoices\<close> (lines 59
  to 78, the Firestore query and the mapping of its documents to invoices: the array, or
  the error thrown on the way), the instant \<open>new Date()\<close> yields at line 228, and the
  console that \<open>console.error\<close> appends to. A thrown value is an error with its
  message; an empty message stands for a missing one as well, since \<open>||\<close> treats both
  alike.
\<close>

datatype error = Error (message: string)

record world =
  queryInvoices :: "string \<Rightarrow> error + Invoice list"
  clock :: int
  console :: "(string \<times> error) list"

text \<open>
  Lines 57 to 83: the \<open>catch\<close> of \<open>getUserInvoices\<close> logs the error it caught and
  throws a new one with the same message, or with a default when there is none.
\<close>

definition getUserInvoices :: "string \<Rightarrow> world \<Rightarrow> (error + Invoice list) \<times> world" where
  "getUserInvoices userId w =
     (case queryInvoices w userId of
        Inr invoices \<Rightarrow> (Inr invoices, w)
      | Inl e \<Rightarrow>
          (Inl (Error (if message e = [] then ''Failed to fetch invoices'' else message e)),
           w\<lparr>console := console w @ [(''Error fetching invoices:'', e)]\<rparr>))"

text \<open>
  Lines 213 to 249: the \<open>try\<close> block awaits \<open>getUserInvoices\<close>, reads the clock and
  runs the loop; the \<open>catch\<close> logs what it caught and throws again in the same way.
\<close>

definition getInvoiceStats :: "string \<Rightarrow> world \<Rightarrow> (error + InvoiceStats) \<times> world" where
  "getInvoiceStats userId w =
     (case getUserInvoices userId w of
        (Inr invoices, w') \<Rightarrow> (Inr (computeStats invoices (clock w')), w')
      | (Inl e, w') \<Rightarrow>
          (Inl (Error (if message e = [] then ''Failed to calculate stats'' else message e)),
           w'\<lparr>console := console w' @ [(''Error calculating invoice stats:'', e)]\<rparr>))"

text \<open>
  Stores for the examples. In \<open>answering\<close> every query succeeds: the listed users have
  the listed invoices, any other user has none. In \<open>failing\<close> every query throws the
  given error.
\<close>

definition answering :: "(string \<times> Invoice list) list \<Rightarrow> string \<Rightarrow> error + Invoice list" where
  "answering table userId =
     Inr (case map_of table userId of Some invoices \<Rightarrow> invoices | None \<Rightarrow> [])"

definition failing :: "error \<Rightarrow> string \<Rightarrow> error + Invoice list" where
  "failing e userId = Inl e"

subsection \<open>The loop on run-time values\<close>

text \<open>
  TypeScript types the awaited array as \<open>Invoice[]\<close>, and \<open>tally\<close> and \<open>computeStats\<close>
  are lines 219 to 244 on values of those types. The types are erased at run time
  (\<open>getUserInvoices\<close> casts every document with \<open>as Invoice\<close>, unchecked), where a field
  can hold any value and an operator applied to it can throw. The definitions below are
  the same lines on run-time values: the values of the seven primitive types and \<open>Date\<close>
  objects. Other objects are left out, since converting them runs methods of their own.
  A \<open>Date\<close> is its time value, \<open>None\<close> for an invalid date.
\<close>

datatype jsValue =
    JUndefined
  | JNull
  | JBoolean bool
  | JNumber number
  | JString string
  | JBigInt int
  | JSymbol
  | JDate "int option"

record RawInvoice =
  statusValue :: jsValue
  totalValue :: jsValue
  dueDateValue :: jsValue

text \<open>
  The two sums start as numbers. \<open>+=\<close> turns one into a string as soon as it meets a
  string or a \<open>Date\<close> (which \<open>+\<close> converts to a string), and a string it stays; its
  characters are not tracked. The counters only ever see \<open>++\<close> and stay numbers.
\<close>

datatype sumValue = NumberSum number | StringSum

record RawStats =
  invoiceCount :: nat
  paidCount :: nat
  unpaidCount :: nat
  overdueCount :: nat
  revenueSum :: sumValue
  outstandingSum :: sumValue

datatype thrown = TypeError

text \<open>
  \<open>sum += value\<close>. A symbol converts neither to a string nor to a number, and a
  number and a bigint do not add: both throw a \<open>TypeError\<close>. With a string on either
  side the result is the concatenation. Otherwise the value is converted to a number
  (\<open>undefined\<close> to \<open>NaN\<close>, \<open>null\<close> and \<open>false\<close> to 0, \<open>true\<close> to 1) and added.
\<close>

fun addAssign :: "sumValue \<Rightarrow> jsValue \<Rightarrow> thrown + sumValue" where
  "addAssign _ JSymbol = Inl TypeError"
| "addAssign StringSum _ = Inr StringSum"
| "addAssign (NumberSum a) (JString s) = Inr StringSum"
| "addAssign (NumberSum a) (JDate d) = Inr StringSum"
| "addAssign (NumberSum a) (JBigInt n) = Inl TypeError"
| "addAssign (NumberSum a) (JNumber b) = Inr (NumberSum (js_add a b))"
| "addAssign (NumberSum a) JUndefined = Inr (NumberSum (js_add a NaN))"
| "addAssign (NumberSum a) JNull = Inr (NumberSum (js_add a (Finite 0)))"
| "addAssign (NumberSum a) (JBoolean b) =
     Inr (NumberSum (js_add a (Finite (if b then 1 else 0))))"

text \<open>
  \<open>value < today\<close>, where \<open>today\<close> is the valid \<open>Date\<close> that \<open>new Date()\<close> made. Both
  sides are converted to numbers, a \<open>Date\<close> to its time value; a comparison with
  \<open>NaN\<close> is false; a bigint is compared by its value; a symbol throws. The conversion of
  a string to a number is the language's \<open>StringToNumber\<close>, taken as the parameter
  \<open>stringToNumber\<close>.
\<close>

fun numberLess :: "number \<Rightarrow> int \<Rightarrow> bool" where
  "numberLess (Finite q) t = (q < of_int t)"
| "numberLess NegInfinity t = True"
| "numberLess PosInfinity t = False"
| "numberLess NaN t = False"

fun lessThanDate :: "(string \<Rightarrow> number) \<Rightarrow> jsValue \<Rightarrow> int \<Rightarrow> thrown + bool" where
  "lessThanDate stringToNumber JSymbol today = Inl TypeError"
| "lessThanDate stringToNumber (JDate None) today = Inr False"
| "lessThanDate stringToNumber (JDate (Some time)) today = Inr (time < today)"
| "lessThanDate stringToNumber (JNumber x) today = Inr (numberLess x today)"
| "lessThanDate stringToNumber (JString s) today = Inr (numberLess (stringToNumber s) today)"
| "lessThanDate stringToNumber (JBigInt n) today = Inr (n < today)"
| "lessThanDate stringToNumber JUndefined today = Inr False"
| "lessThanDate stringToNumber JNull today = Inr (0 < today)"
| "lessThanDate stringToNumber (JBoolean b) today = Inr ((if b then 1 else 0) < today)"

text \<open>
  The callback (lines 230 to 242) on run-time values. When an operator throws, the
  exception leaves the loop for the \<open>catch\<close> of line 245; the \<open>stats\<close> object,
  already partly updated, is local to the call and is dropped with it.
\<close>

definition tallyRaw ::
  "(string \<Rightarrow> number) \<Rightarrow> int \<Rightarrow> RawInvoice \<Rightarrow> RawStats \<Rightarrow> thrown + RawStats" where
  "tallyRaw stringToNumber today invoice stats =
     (if statusValue invoice = JString ''paid'' then
        (case addAssign (revenueSum stats) (totalValue invoice) of
           Inl e \<Rightarrow> Inl e
         | Inr revenue \<Rightarrow>
             Inr (stats\<lparr>paidCount := paidCount stats + 1, revenueSum := revenue\<rparr>))
      else
        (case addAssign (outstandingSum stats) (totalValue invoice) of
           Inl e \<Rightarrow> Inl e
         | Inr outstanding \<Rightarrow>
             (let stats' = stats\<lparr>unpaidCount := unpaidCount stats + 1,
                                 outstandingSum := outstanding\<rparr>
              in case lessThanDate stringToNumber (dueDateValue invoice) today of
                   Inl e \<Rightarrow> Inl e
                 | Inr before \<Rightarrow>
                     Inr (if before \<and> statusValue invoice \<noteq> JString ''paid''
                          then stats'\<lparr>overdueCount := overdueCount stats' + 1\<rparr>
                          else stats'))))"

fun forEachRaw ::
  "(string \<Rightarrow> number) \<Rightarrow> int \<Rightarrow> RawInvoice list \<Rightarrow> RawStats \<Rightarrow> thrown + RawStats" where
  "forEachRaw stringToNumber today [] stats = Inr stats"
| "forEachRaw stringToNumber today (invoice # invoices) stats =
     (case tallyRaw stringToNumber today invoice stats of
        Inl e \<Rightarrow> Inl e
      | Inr stats' \<Rightarrow> forEachRaw stringToNumber today invoices stats')"

definition computeStatsRaw ::
  "(string \<Rightarrow> number) \<Rightarrow> RawInvoice list \<Rightarrow> int \<Rightarrow> thrown + RawStats" where
  "computeStatsRaw stringToNumber invoices today =
     forEachRaw stringToNumber today invoices
       \<lparr>invoiceCount = length invoices, paidCount = 0, unpaidCount = 0, overdueCount = 0,
        revenueSum = NumberSum (Finite 0), outstandingSum = NumberSum (Finite 0)\<rparr>"

text \<open>
  A well-typed invoice at run time: the status is the string of its name (modelled from
  the spec, like the enumeration itself), the total a number and the due date a valid
  \<open>Date\<close>. Well-typed statistics hold numbers in both sums.
\<close>

fun statusLiteral :: "InvoiceStatus \<Rightarrow> string" where
  "statusLiteral draft = ''draft''"
| "statusLiteral sent = ''sent''"
| "statusLiteral paid = ''paid''"
| "statusLiteral overdue = ''overdue''"
| "statusLiteral cancelled = ''cancelled''"

definition rawInvoice :: "Invoice \<Rightarrow> RawInvoice" where
  "rawInvoice invoice =
     \<lparr>statusValue = JString (statusLiteral (status invoice)),
      totalValue = JNumber (total invoice),
      dueDateValue = JDate (Some (dueDate invoice))\<rparr>"

definition rawStats :: "InvoiceStats \<Rightarrow> RawStats" where
  "rawStats stats =
     \<lparr>invoiceCount = totalInvoices stats,
      paidCount = paidInvoices stats,
      unpaidCount = unpaidInvoices stats,
      overdueCount = overdueInvoices stats,
      revenueSum = NumberSum (totalRevenue stats),
      outstandingSum = NumberSum (outstandingAmount stats)\<rparr>"

section \<open>Binary64 rounding\<close>

lemma roundTiesToEven_of_int: "roundTiesToEven (of_int m) = m"
  by (simp add: roundTiesToEven_def)

lemma roundTiesToEven_bounds:
  "\<lfloor>x\<rfloor> \<le> roundTiesToEven x \<and> roundTiesToEven x \<le> \<lfloor>x\<rfloor> + 1"
  by (simp add: roundTiesToEven_def Let_def)

lemma bitlen_eqI:
  assumes "2 ^ k \<le> z" "z < 2 ^ Suc k"
  shows "bitlen z = int (Suc k)"
proof -
  have "(0::int) < 2 ^ k" by simp
  with assms(1) have "0 \<le> z" by linarith
  then have z: "z = int (nat z)" by simp
  have "int (2 ^ k) \<le> int (nat z)" using assms(1) z by simp
  then have "(2::nat) ^ k \<le> nat z" by (simp only: of_nat_le_iff)
  then have 1: "Suc k \<le> floorlog 2 (nat z)" by (intro floorlog_ge_SucI) auto
  have "int (nat z) < int (2 ^ Suc k)" using assms(2) z by simp
  then have "nat z < 2 ^ Suc k" by (simp only: of_nat_less_iff)
  then have 2: "floorlog 2 (nat z) \<le> Suc k" by (intro floorlog_leI) auto
  show ?thesis using 1 2 by (simp add: bitlen_def)
qed

text \<open>
  In the normal range the rounding keeps 53 significant bits: when \<open>\<bar>q\<bar>\<close> lies in
  \<open>[2^52, 2^53)\<close> times \<open>2^e\<close>, the result is \<open>q / 2^e\<close> rounded to an integer, times
  \<open>2^e\<close>. Concrete sums are evaluated through this lemma.
\<close>

lemma roundToDouble_normal:
  fixes q :: rat and e :: int
  assumes e: "- 1074 \<le> e" "e \<le> 970"
    and lo: "2 ^ 52 \<le> \<bar>q\<bar> / 2 powi e"
    and hi: "\<bar>q\<bar> / 2 powi e < 2 ^ 53"
  shows "roundToDouble q = Finite (of_int (roundTiesToEven (q / 2 powi e)) * 2 powi e)"
proof -
  define E where "E = nat (e + 1074)"
  define n where "n = q * 2 ^ 1074"
  define m where "m = roundTiesToEven (q / 2 powi e)"
  have eE: "e = int E - 1074" using e by (simp add: E_def)
  have pw: "(2::rat) powi e = 2 ^ E / 2 ^ 1074"
    unfolding eE by (subst power_int_diff) simp_all
  have scaled: "n / 2 ^ E = q / 2 powi e"
    by (simp add: n_def pw)
  have abs_scaled: "\<bar>n\<bar> / 2 ^ E = \<bar>q\<bar> / 2 powi e"
    by (simp add: n_def pw abs_mult)
  have lo': "2 ^ (52 + E) \<le> \<bar>n\<bar>"
    using lo unfolding abs_scaled [symmetric] by (simp add: pos_le_divide_eq power_add)
  have hi': "\<bar>n\<bar> < 2 ^ (53 + E)"
    using hi unfolding abs_scaled [symmetric] by (simp add: pos_divide_less_eq power_add)
  have "of_int (2 ^ (52 + E)) \<le> \<bar>n\<bar>" using lo' by simp
  then have zlo: "2 ^ (52 + E) \<le> \<lfloor>\<bar>n\<bar>\<rfloor>" by (simp only: le_floor_iff)
  have "\<bar>n\<bar> < of_int (2 ^ (53 + E))" using hi' by simp
  then have zhi: "\<lfloor>\<bar>n\<bar>\<rfloor> < 2 ^ Suc (52 + E)" by (simp only: floor_less_iff) simp
  have "bitlen \<lfloor>\<bar>n\<bar>\<rfloor> = int (Suc (52 + E))" by (rule bitlen_eqI [OF zlo zhi])
  then have shift: "nat (bitlen \<lfloor>\<bar>n\<bar>\<rfloor> - 53) = E" by simp
  have r: "of_int m * 2 ^ E / 2 ^ 1074 = (of_int m :: rat) * 2 powi e"
    by (simp add: pw)
  have x: "\<bar>q / 2 powi e\<bar> < 2 ^ 53" using hi by (simp add: abs_divide)
  then have "- (2 ^ 53) < q / 2 powi e" "q / 2 powi e < 2 ^ 53" by linarith+
  then have "- (2 ^ 53) \<le> \<lfloor>q / 2 powi e\<rfloor>" "\<lfloor>q / 2 powi e\<rfloor> + 1 \<le> 2 ^ 53"
    by (simp_all add: le_floor_iff floor_less_iff less_imp_le)
  with roundTiesToEven_bounds [of "q / 2 powi e"] have mb: "- (2 ^ 53) \<le> m" "m \<le> 2 ^ 53"
    unfolding m_def by linarith+
  have p970: "(2::rat) powi e \<le> 2 powi 970"
    using e by (intro power_int_increasing) simp_all
  have p0: "(0::rat) < 2 powi e" by (simp add: zero_less_power_int)
  have "\<bar>of_int m * 2 powi e\<bar> = \<bar>of_int m :: rat\<bar> * 2 powi e"
    using p0 by (simp add: abs_mult)
  also have "\<dots> \<le> 2 ^ 53 * 2 powi e"
  proof (rule mult_right_mono)
    have "\<bar>m\<bar> \<le> 2 ^ 53" using mb by linarith
    then have "(of_int \<bar>m\<bar> :: rat) \<le> of_int (2 ^ 53)" by (simp only: of_int_le_iff)
    then show "\<bar>of_int m :: rat\<bar> \<le> 2 ^ 53" by simp
    show "(0::rat) \<le> 2 powi e" using p0 by simp
  qed
  also have "\<dots> \<le> 2 ^ 53 * 2 powi 970"
    using p970 by simp
  also have "\<dots> < 2 ^ 1024" by simp
  finally have rb: "\<bar>(of_int m :: rat) * 2 powi e\<bar> < 2 ^ 1024" .
  then have "\<not> 2 ^ 1024 \<le> (of_int m :: rat) * 2 powi e"
    "\<not> (of_int m :: rat) * 2 powi e \<le> - (2 ^ 1024)" by linarith+
  then show ?thesis
    unfolding roundToDouble_def Let_def n_def [symmetric] shift scaled m_def [symmetric] r
    by simp
qed

lemma roundToDouble_zero: "roundToDouble 0 = Finite 0"
  by (simp add: roundToDouble_def roundTiesToEven_def)

lemma pow_lt_53:
  fixes n :: nat
  assumes "n < 2 ^ 53" "2 ^ j \<le> int n"
  shows "j < 53"
proof -
  have "int n < int (2 ^ 53)" using assms(1) by (simp only: of_nat_less_iff)
  then have "int n < 2 ^ 53" by simp
  with assms(2) have "(2::int) ^ j < 2 ^ 53" by linarith
  then show ?thesis
    by (simp only: power_strict_increasing_iff [of "2::int"] one_less_numeral_iff
        num.simps semiring_norm)
qed

lemma scale_down: "rat_of_nat n / 2 powi (- int k) = of_int (int n * 2 ^ k)"
proof -
  have "(2::rat) powi (- int k) = inverse (2 ^ k)"
    by (simp only: power_int_minus power_int_of_nat)
  then show ?thesis by (simp add: field_simps)
qed

text \<open>Whole numbers below \<open>2^53\<close> are binary64 values: rounding leaves them alone.\<close>

lemma roundToDouble_of_nat:
  assumes "n < 2 ^ 53"
  shows "roundToDouble (of_nat n) = Finite (of_nat n)"
proof (cases "n = 0")
  case True
  then show ?thesis by (simp add: roundToDouble_zero)
next
  case False
  define b where "b = bitlen (int n)"
  define k where "k = nat (53 - b)"
  have pos: "0 < int n" using False by simp
  have lo: "2 ^ nat (b - 1) \<le> int n" and hi: "int n < 2 ^ nat b"
    using bitlen_bounds [OF pos] by (simp_all add: b_def)
  have b1: "1 \<le> b"
    using pos bitlen_eq_zero_iff [of "int n"] bitlen_nonneg [of "int n"] unfolding b_def
    by linarith
  have "nat (b - 1) < 53" by (rule pow_lt_53 [OF assms lo])
  then have b53: "b \<le> 53" by linarith
  have kb: "nat (b - 1) + k = 52" "nat b + k = 53" using b1 b53 by (simp_all add: k_def)
  have q: "rat_of_nat n / 2 powi (- int k) = of_int (int n * 2 ^ k)"
    by (rule scale_down)
  have "(2::int) ^ 52 = 2 ^ nat (b - 1) * 2 ^ k" by (simp only: kb(1) [symmetric] power_add)
  also have "\<dots> \<le> int n * 2 ^ k" using lo by (intro mult_right_mono) simp_all
  finally have "rat_of_int (2 ^ 52) \<le> rat_of_int (int n * 2 ^ k)" by (simp only: of_int_le_iff)
  then have 1: "2 ^ 52 \<le> \<bar>rat_of_nat n\<bar> / 2 powi (- int k)"
    unfolding abs_of_nat q by simp
  have "int n * 2 ^ k < 2 ^ nat b * 2 ^ k" using hi by (intro mult_strict_right_mono) simp_all
  also have "\<dots> = 2 ^ 53" by (simp only: kb(2) [symmetric] power_add)
  finally have "rat_of_int (int n * 2 ^ k) < rat_of_int (2 ^ 53)" by (simp only: of_int_less_iff)
  then have 2: "\<bar>rat_of_nat n\<bar> / 2 powi (- int k) < 2 ^ 53"
    unfolding abs_of_nat q by simp
  have e: "- 1074 \<le> - int k" "- int k \<le> 970" using b1 by (simp_all add: k_def)
  have unscale: "rat_of_int (int n * 2 ^ k) * 2 powi (- int k) = of_nat n"
    by (simp add: power_int_minus)
  have "roundToDouble (of_nat n) =
          Finite (of_int (roundTiesToEven (rat_of_nat n / 2 powi (- int k))) * 2 powi (- int k))"
    by (rule roundToDouble_normal [OF e 1 2])
  also have "\<dots> = Finite (of_nat n)"
    unfolding q roundTiesToEven_of_int unscale ..
  finally show ?thesis .
qed

lemma isWhole_Finite: "isWhole x \<Longrightarrow> x = Finite (of_nat (wholeValue x))"
  by (cases x) (simp_all add: isWhole_def wholeValue_def)

lemma exactValue_whole: "isWhole x \<Longrightarrow> exactValue x = of_nat (wholeValue x)"
  by (cases x) (simp_all add: isWhole_def wholeValue_def exactValue_def)

lemma exact_sum_whole:
  "list_all isWhole xs \<Longrightarrow> sum_list (map exactValue xs) = of_nat (sum_list (map wholeValue xs))"
  by (induction xs) (simp_all add: exactValue_whole)

lemma js_add_whole:
  assumes "isWhole x" "a + wholeValue x < 2 ^ 53"
  shows "js_add (Finite (of_nat a)) x = Finite (of_nat (a + wholeValue x))"
proof -
  have "js_add (Finite (of_nat a)) x = js_add (Finite (of_nat a)) (Finite (of_nat (wholeValue x)))"
    using isWhole_Finite [OF assms(1)] by simp
  also have "\<dots> = roundToDouble (of_nat (a + wholeValue x))" by simp
  finally show ?thesis by (simp only: roundToDouble_of_nat [OF assms(2)])
qed

lemma foldl_js_add_whole:
  "\<forall>x\<in>set xs. isWhole x \<Longrightarrow> a + sum_list (map wholeValue xs) < 2 ^ 53 \<Longrightarrow>
   foldl js_add (Finite (of_nat a)) xs = Finite (of_nat (a + sum_list (map wholeValue xs)))"
proof (induction xs arbitrary: a)
  case Nil
  then show ?case by simp
next
  case (Cons x xs)
  have "a + wholeValue x < 2 ^ 53" using Cons.prems(2) by simp
  then have "js_add (Finite (of_nat a)) x = Finite (of_nat (a + wholeValue x))"
    using Cons.prems(1) by (intro js_add_whole) simp_all
  moreover have "foldl js_add (Finite (of_nat (a + wholeValue x))) xs
      = Finite (of_nat (a + wholeValue x + sum_list (map wholeValue xs)))"
    using Cons.prems by (intro Cons.IH) (simp_all add: add.assoc)
  ultimately show ?case by (simp add: add.assoc)
qed

subsection \<open>The decimals 0.1, 0.2 and 0.3\<close>

text \<open>
  The binary64 values of the literals \<open>0.1\<close>, \<open>0.2\<close> and \<open>0.3\<close>, and the sums of
  them that the examples below run into, each rounded once.
\<close>

lemma floor_rat_numeral: "\<lfloor>numeral a / numeral b :: rat\<rfloor> = numeral a div numeral b"
  using floor_divide_of_int_eq [of "numeral a" "numeral b", where ?'a = rat] by simp

lemmas round_eval = roundTiesToEven_def Let_def power_int_minus floor_rat_numeral

lemma double_0_1: "roundToDouble (1 / 10) = Finite (3602879701896397 / 36028797018963968)"
  using roundToDouble_normal [of "- 56" "1 / 10"] by (simp add: round_eval)

lemma double_0_2: "roundToDouble (1 / 5) = Finite (3602879701896397 / 18014398509481984)"
  using roundToDouble_normal [of "- 55" "1 / 5"] by (simp add: round_eval)

lemma double_0_3: "roundToDouble (3 / 10) = Finite (5404319552844595 / 18014398509481984)"
  using roundToDouble_normal [of "- 54" "3 / 10"] by (simp add: round_eval)

lemma sum_0_a:
  "roundToDouble (3602879701896397 / 36028797018963968)
     = Finite (3602879701896397 / 36028797018963968)"
  using roundToDouble_normal [of "- 56" "3602879701896397 / 36028797018963968"]
  by (simp add: round_eval)

lemma sum_0_b:
  "roundToDouble (3602879701896397 / 18014398509481984)
     = Finite (3602879701896397 / 18014398509481984)"
  using roundToDouble_normal [of "- 55" "3602879701896397 / 18014398509481984"]
  by (simp add: round_eval)

lemma sum_0_c:
  "roundToDouble (5404319552844595 / 18014398509481984)
     = Finite (5404319552844595 / 18014398509481984)"
  using roundToDouble_normal [of "- 54" "5404319552844595 / 18014398509481984"]
  by (simp add: round_eval)

lemma sum_a_b:
  "roundToDouble (10808639105689191 / 36028797018963968)
     = Finite (1351079888211149 / 4503599627370496)"
  using roundToDouble_normal [of "- 54" "10808639105689191 / 36028797018963968"]
  by (simp add: round_eval)

lemma sum_ab_c:
  "roundToDouble (10808639105689191 / 18014398509481984)
     = Finite (1351079888211149 / 2251799813685248)"
  using roundToDouble_normal [of "- 53" "10808639105689191 / 18014398509481984"]
  by (simp add: round_eval)

lemma sum_c_b: "roundToDouble (1 / 2) = Finite (1 / 2)"
  using roundToDouble_normal [of "- 53" "1 / 2"] by (simp add: round_eval)

lemma sum_cb_a:
  "roundToDouble (21617278211378381 / 36028797018963968)
     = Finite (5404319552844595 / 9007199254740992)"
  using roundToDouble_normal [of "- 53" "21617278211378381 / 36028797018963968"]
  by (simp add: round_eval)

lemmas decimal_sums =
  double_0_1 double_0_2 double_0_3 sum_0_a sum_0_b sum_0_c sum_a_b sum_ab_c sum_c_b sum_cb_a

section \<open>Properties of the aggregation\<close>

subsection \<open>What the loop does to each field\<close>

lemma tally_counts:
  "paidInvoices (tally today invoice stats) + unpaidInvoices (tally today invoice stats)
     = Suc (paidInvoices stats + unpaidInvoices stats)"
  by (simp add: tally_def Let_def)

lemma fold_tally_counts:
  "paidInvoices (fold (tally today) invoices stats)
     + unpaidInvoices (fold (tally today) invoices stats)
     = paidInvoices stats + unpaidInvoices stats + length invoices"
  by (induction invoices arbitrary: stats) (simp_all add: tally_counts)

lemma tally_overdue_le:
  "overdueInvoices stats \<le> unpaidInvoices stats \<Longrightarrow>
   overdueInvoices (tally today invoice stats) \<le> unpaidInvoices (tally today invoice stats)"
  by (simp add: tally_def Let_def)

lemma fold_tally_overdue_le:
  "overdueInvoices stats \<le> unpaidInvoices stats \<Longrightarrow>
   overdueInvoices (fold (tally today) invoices stats)
     \<le> unpaidInvoices (fold (tally today) invoices stats)"
  by (induction invoices arbitrary: stats) (simp_all add: tally_overdue_le)

lemma fold_tally_totalInvoices:
  "totalInvoices (fold (tally today) invoices stats) = totalInvoices stats"
  by (induction invoices arbitrary: stats) (simp_all add: tally_def Let_def)

lemma fold_tally_paid:
  "paidInvoices (fold (tally today) invoices stats)
     = paidInvoices stats + length (filter (\<lambda>i. status i = paid) invoices)"
  by (induction invoices arbitrary: stats) (simp_all add: tally_def Let_def)

lemma fold_tally_unpaid:
  "unpaidInvoices (fold (tally today) invoices stats)
     = unpaidInvoices stats + length (filter (\<lambda>i. status i \<noteq> paid) invoices)"
  by (induction invoices arbitrary: stats) (simp_all add: tally_def Let_def)

lemma fold_tally_overdue:
  "overdueInvoices (fold (tally today) invoices stats)
     = overdueInvoices stats
       + length (filter (\<lambda>i. status i \<noteq> paid \<and> dueDate i < today) invoices)"
  by (induction invoices arbitrary: stats) (simp_all add: tally_def Let_def)

lemma fold_tally_revenue:
  "totalRevenue (fold (tally today) invoices stats)
     = foldl js_add (totalRevenue stats) (map total (filter (\<lambda>i. status i = paid) invoices))"
  by (induction invoices arbitrary: stats) (simp_all add: tally_def Let_def)

lemma fold_tally_outstanding:
  "outstandingAmount (fold (tally today) invoices stats)
     = foldl js_add (outstandingAmount stats)
         (map total (filter (\<lambda>i. status i \<noteq> paid) invoices))"
  by (induction invoices arbitrary: stats) (simp_all add: tally_def Let_def)

lemmas fold_tally_fields =
  fold_tally_totalInvoices fold_tally_paid fold_tally_unpaid fold_tally_overdue
  fold_tally_revenue fold_tally_outstanding

text \<open>
  The result field by field: counts of the paid, the unpaid and the unpaid overdue
  invoices, and the two totals added up from zero in the order of the array.
\<close>

lemma computeStats_closed_form:
  "computeStats invoices today =
     \<lparr>totalInvoices = length invoices,
      paidInvoices = length (filter (\<lambda>i. status i = paid) invoices),
      unpaidInvoices = length (filter (\<lambda>i. status i \<noteq> paid) invoices),
      overdueInvoices = length (filter (\<lambda>i. status i \<noteq> paid \<and> dueDate i < today) invoices),
      totalRevenue = foldl js_add (Finite 0) (map total (filter (\<lambda>i. status i = paid) invoices)),
      outstandingAmount =
        foldl js_add (Finite 0) (map total (filter (\<lambda>i. status i \<noteq> paid) invoices))\<rparr>"
  by (rule InvoiceStats.equality)
     (simp_all add: computeStats_def fold_tally_fields initialStats_def)

subsection \<open>Invariants\<close>

text \<open>
  C1: for every list of invoices and every instant, the statistics satisfy
  \<open>paidInvoices + unpaidInvoices = totalInvoices\<close>.
\<close>

theorem paid_plus_unpaid_eq_total:
  "paidInvoices (computeStats invoices today) + unpaidInvoices (computeStats invoices today)
     = totalInvoices (computeStats invoices today)"
  by (simp add: computeStats_def fold_tally_counts fold_tally_totalInvoices initialStats_def)

text \<open>
  C2: for every list of invoices and every instant, the statistics satisfy
  \<open>overdueInvoices \<le> unpaidInvoices\<close>.
\<close>

theorem overdue_le_unpaid:
  "overdueInvoices (computeStats invoices today) \<le> unpaidInvoices (computeStats invoices today)"
  unfolding computeStats_def
  by (rule fold_tally_overdue_le) (simp add: initialStats_def)

subsection \<open>What is computed\<close>

text \<open>
  C3: for any accumulated statistics, an invoice whose status is paid adds one to
  \<open>paidInvoices\<close> and its total to \<open>totalRevenue\<close>; any other invoice adds one to
  \<open>unpaidInvoices\<close>, its total to \<open>outstandingAmount\<close>, and one to \<open>overdueInvoices\<close>
  exactly when its due date is strictly before the instant. The counters and sums start
  at zero, \<open>totalInvoices\<close> is the length of the list, and the result is what these
  steps add up to over the list.
\<close>

theorem tally_per_invoice:
  "tally today invoice stats =
     (if status invoice = paid
      then stats\<lparr>paidInvoices := Suc (paidInvoices stats),
                 totalRevenue := js_add (totalRevenue stats) (total invoice)\<rparr>
      else stats\<lparr>unpaidInvoices := Suc (unpaidInvoices stats),
                 outstandingAmount := js_add (outstandingAmount stats) (total invoice),
                 overdueInvoices :=
                   (if dueDate invoice < today then Suc (overdueInvoices stats)
                    else overdueInvoices stats)\<rparr>)
   \<and> initialStats invoices =
       \<lparr>totalInvoices = length invoices, paidInvoices = 0, unpaidInvoices = 0,
        overdueInvoices = 0, totalRevenue = Finite 0, outstandingAmount = Finite 0\<rparr>
   \<and> computeStats invoices today = fold (tally today) invoices (initialStats invoices)
   \<and> computeStats invoices today =
       \<lparr>totalInvoices = length invoices,
        paidInvoices = length (filter (\<lambda>i. status i = paid) invoices),
        unpaidInvoices = length (filter (\<lambda>i. status i \<noteq> paid) invoices),
        overdueInvoices =
          length (filter (\<lambda>i. status i \<noteq> paid \<and> dueDate i < today) invoices),
        totalRevenue =
          foldl js_add (Finite 0) (map total (filter (\<lambda>i. status i = paid) invoices)),
        outstandingAmount =
          foldl js_add (Finite 0) (map total (filter (\<lambda>i. status i \<noteq> paid) invoices))\<rparr>"
proof -
  have "tally today invoice stats =
     (if status invoice = paid
      then stats\<lparr>paidInvoices := Suc (paidInvoices stats),
                 totalRevenue := js_add (totalRevenue stats) (total invoice)\<rparr>
      else stats\<lparr>unpaidInvoices := Suc (unpaidInvoices stats),
                 outstandingAmount := js_add (outstandingAmount stats) (total invoice),
                 overdueInvoices :=
                   (if dueDate invoice < today then Suc (overdueInvoices stats)
                    else overdueInvoices stats)\<rparr>)"
    by (simp add: tally_def Let_def)
  moreover have "initialStats invoices =
       \<lparr>totalInvoices = length invoices, paidInvoices = 0, unpaidInvoices = 0,
        overdueInvoices = 0, totalRevenue = Finite 0, outstandingAmount = Finite 0\<rparr>"
    by (simp add: initialStats_def)
  moreover have "computeStats invoices today = fold (tally today) invoices (initialStats invoices)"
    by (simp add: computeStats_def)
  ultimately show ?thesis
    using computeStats_closed_form [of invoices today] by (simp only: simp_thms)
qed

text \<open>
  C4: on the empty list, at every instant, every field of the statistics is zero.
\<close>

theorem computeStats_empty:
  "computeStats [] today =
     \<lparr>totalInvoices = 0, paidInvoices = 0, unpaidInvoices = 0, overdueInvoices = 0,
      totalRevenue = Finite 0, outstandingAmount = Finite 0\<rparr>"
  by (simp add: computeStats_def initialStats_def)

text \<open>
  C6: a paid invoice of 100 followed by a sent invoice of 50 that was due before the
  instant give two invoices, one paid, one unpaid, one overdue, a revenue of 100 and 50
  outstanding.
\<close>

theorem scenario_paid_and_overdue:
  assumes "dueSent < today"
  shows "computeStats
           [\<lparr>status = paid, total = Finite 100, dueDate = duePaid\<rparr>,
            \<lparr>status = sent, total = Finite 50, dueDate = dueSent\<rparr>] today
         = \<lparr>totalInvoices = 2, paidInvoices = 1, unpaidInvoices = 1, overdueInvoices = 1,
            totalRevenue = Finite 100, outstandingAmount = Finite 50\<rparr>"
proof -
  have "roundToDouble 100 = Finite 100" "roundToDouble 50 = Finite 50"
    using roundToDouble_of_nat [of 100] roundToDouble_of_nat [of 50] by simp_all
  then show ?thesis
    using assms by (simp add: computeStats_def initialStats_def tally_def Let_def)
qed

text \<open>The scenario with the sent invoice due one day (86400000 ms) before the instant.\<close>

theorem scenario_paid_and_overdue_witness:
  "(1699913600000::int) < 1700000000000 \<and>
   computeStats
     [\<lparr>status = paid, total = Finite 100, dueDate = 1699000000000\<rparr>,
      \<lparr>status = sent, total = Finite 50, dueDate = 1699913600000\<rparr>] 1700000000000
   = \<lparr>totalInvoices = 2, paidInvoices = 1, unpaidInvoices = 1, overdueInvoices = 1,
      totalRevenue = Finite 100, outstandingAmount = Finite 50\<rparr>"
  using scenario_paid_and_overdue [of 1699913600000 1700000000000 1699000000000] by simp

text \<open>
  C7: when every invoice of the list is paid, at every instant, \<open>overdueInvoices\<close>,
  \<open>outstandingAmount\<close> and \<open>unpaidInvoices\<close> are zero.
\<close>

theorem all_paid_nothing_outstanding:
  assumes "list_all (\<lambda>i. status i = paid) invoices"
  shows "overdueInvoices (computeStats invoices today) = 0
       \<and> outstandingAmount (computeStats invoices today) = Finite 0
       \<and> unpaidInvoices (computeStats invoices today) = 0"
proof -
  have "filter (\<lambda>i. status i \<noteq> paid) invoices = []"
    using assms by (simp add: list_all_iff filter_empty_conv)
  moreover have "filter (\<lambda>i. status i \<noteq> paid \<and> dueDate i < today) invoices = []"
    using assms by (simp add: list_all_iff filter_empty_conv)
  ultimately show ?thesis by (simp add: computeStats_closed_form)
qed

text \<open>Two paid invoices, both due before the instant.\<close>

theorem all_paid_nothing_outstanding_witness:
  "overdueInvoices (computeStats
       [\<lparr>status = paid, total = Finite 100, dueDate = 5\<rparr>,
        \<lparr>status = paid, total = Finite 50, dueDate = 7\<rparr>] 10) = 0
   \<and> outstandingAmount (computeStats
       [\<lparr>status = paid, total = Finite 100, dueDate = 5\<rparr>,
        \<lparr>status = paid, total = Finite 50, dueDate = 7\<rparr>] 10) = Finite 0
   \<and> unpaidInvoices (computeStats
       [\<lparr>status = paid, total = Finite 100, dueDate = 5\<rparr>,
        \<lparr>status = paid, total = Finite 50, dueDate = 7\<rparr>] 10) = 0"
  using all_paid_nothing_outstanding
    [of "[\<lparr>status = paid, total = Finite 100, dueDate = 5\<rparr>,
          \<lparr>status = paid, total = Finite 50, dueDate = 7\<rparr>]" 10]
  by simp

section \<open>The order of the invoices\<close>

lemma sum_list_split_filter:
  fixes f :: "'a \<Rightarrow> nat"
  shows "sum_list (map f (filter P xs)) + sum_list (map f (filter (\<lambda>x. \<not> P x) xs))
           = sum_list (map f xs)"
  by (induction xs) simp_all

lemma sum_list_permuted:
  fixes f :: "'a \<Rightarrow> nat"
  assumes "mset xs = mset ys"
  shows "sum_list (map f (filter P xs)) = sum_list (map f (filter P ys))"
proof -
  have "mset (map f (filter P xs)) = mset (map f (filter P ys))"
    using assms by (simp only: mset_map mset_filter)
  then have "sum_mset (mset (map f (filter P xs))) = sum_mset (mset (map f (filter P ys)))"
    by (rule arg_cong)
  then show ?thesis by (simp only: sum_mset_sum_list)
qed

lemma length_filter_permuted:
  assumes "mset xs = mset ys"
  shows "length (filter P xs) = length (filter P ys)"
proof -
  have "mset (filter P xs) = mset (filter P ys)"
    using assms by (simp only: mset_filter)
  then show ?thesis by (rule mset_eq_length)
qed

text \<open>
  With whole totals that add up to less than \<open>2^53\<close> no addition rounds, and each of
  the two sums is the exact sum of the totals it collects.
\<close>

lemma whole_sum:
  assumes whole: "list_all isWhole (map total invoices)"
    and bound: "sum_list (map wholeValue (map total invoices)) < 2 ^ 53"
  shows "foldl js_add (Finite 0) (map total (filter P invoices))
           = Finite (of_nat (sum_list (map wholeValue (map total (filter P invoices)))))"
proof -
  have 1: "\<forall>x\<in>set (map total (filter P invoices)). isWhole x"
    using whole by (auto simp: list_all_iff)
  have "sum_list (map (\<lambda>i. wholeValue (total i)) (filter P invoices))
          \<le> sum_list (map (\<lambda>i. wholeValue (total i)) invoices)"
    by (rule sum_list_filter_le_nat)
  then have 2: "0 + sum_list (map wholeValue (map total (filter P invoices))) < 2 ^ 53"
    using bound by (simp add: comp_def)
  show ?thesis using foldl_js_add_whole [OF 1 2] by simp
qed

lemma whole_permuted:
  assumes perm: "mset invoices' = mset invoices"
    and whole: "list_all isWhole (map total invoices)"
    and bound: "sum_list (map wholeValue (map total invoices)) < 2 ^ 53"
  shows "list_all isWhole (map total invoices')"
    and "sum_list (map wholeValue (map total invoices')) < 2 ^ 53"
proof -
  have "set invoices' = set invoices" using perm by (rule mset_eq_setD)
  then show "list_all isWhole (map total invoices')"
    using whole by (simp add: list_all_iff)
  have "sum_list (map (\<lambda>i. wholeValue (total i)) (filter (\<lambda>i. True) invoices'))
          = sum_list (map (\<lambda>i. wholeValue (total i)) (filter (\<lambda>i. True) invoices))"
    using perm by (rule sum_list_permuted)
  then show "sum_list (map wholeValue (map total invoices')) < 2 ^ 53"
    using bound by (simp add: comp_def)
qed

lemma revenue_in_order:
  "totalRevenue (computeStats
     [\<lparr>status = paid, total = roundToDouble (1 / 10), dueDate = 0\<rparr>,
      \<lparr>status = paid, total = roundToDouble (1 / 5), dueDate = 0\<rparr>,
      \<lparr>status = paid, total = roundToDouble (3 / 10), dueDate = 0\<rparr>] 0)
   = Finite (1351079888211149 / 2251799813685248)"
  by (simp add: computeStats_def initialStats_def tally_def decimal_sums)

lemma revenue_reversed:
  "totalRevenue (computeStats
     [\<lparr>status = paid, total = roundToDouble (3 / 10), dueDate = 0\<rparr>,
      \<lparr>status = paid, total = roundToDouble (1 / 5), dueDate = 0\<rparr>,
      \<lparr>status = paid, total = roundToDouble (1 / 10), dueDate = 0\<rparr>] 0)
   = Finite (5404319552844595 / 9007199254740992)"
  by (simp add: computeStats_def initialStats_def tally_def decimal_sums)

text \<open>
  C5, as stated, fails: three paid invoices of 0.1, 0.2 and 0.3 give a
  \<open>totalRevenue\<close> of 0.6000000000000001 in this order and of 0.6 in the reverse order,
  because binary64 addition rounds and so is not associative.
\<close>

theorem permutation_counterexample:
  "mset [\<lparr>status = paid, total = roundToDouble (3 / 10), dueDate = 0\<rparr>,
         \<lparr>status = paid, total = roundToDouble (1 / 5), dueDate = 0\<rparr>,
         \<lparr>status = paid, total = roundToDouble (1 / 10), dueDate = 0\<rparr>]
     = mset [\<lparr>status = paid, total = roundToDouble (1 / 10), dueDate = 0\<rparr>,
             \<lparr>status = paid, total = roundToDouble (1 / 5), dueDate = 0\<rparr>,
             \<lparr>status = paid, total = roundToDouble (3 / 10), dueDate = 0\<rparr>]
   \<and> computeStats
       [\<lparr>status = paid, total = roundToDouble (3 / 10), dueDate = 0\<rparr>,
        \<lparr>status = paid, total = roundToDouble (1 / 5), dueDate = 0\<rparr>,
        \<lparr>status = paid, total = roundToDouble (1 / 10), dueDate = 0\<rparr>] 0
     \<noteq> computeStats
       [\<lparr>status = paid, total = roundToDouble (1 / 10), dueDate = 0\<rparr>,
        \<lparr>status = paid, total = roundToDouble (1 / 5), dueDate = 0\<rparr>,
        \<lparr>status = paid, total = roundToDouble (3 / 10), dueDate = 0\<rparr>] 0"
proof -
  have "totalRevenue (computeStats
       [\<lparr>status = paid, total = roundToDouble (3 / 10), dueDate = 0\<rparr>,
        \<lparr>status = paid, total = roundToDouble (1 / 5), dueDate = 0\<rparr>,
        \<lparr>status = paid, total = roundToDouble (1 / 10), dueDate = 0\<rparr>] 0)
     \<noteq> totalRevenue (computeStats
       [\<lparr>status = paid, total = roundToDouble (1 / 10), dueDate = 0\<rparr>,
        \<lparr>status = paid, total = roundToDouble (1 / 5), dueDate = 0\<rparr>,
        \<lparr>status = paid, total = roundToDouble (3 / 10), dueDate = 0\<rparr>] 0)"
    unfolding revenue_in_order revenue_reversed by simp
  then have "computeStats
       [\<lparr>status = paid, total = roundToDouble (3 / 10), dueDate = 0\<rparr>,
        \<lparr>status = paid, total = roundToDouble (1 / 5), dueDate = 0\<rparr>,
        \<lparr>status = paid, total = roundToDouble (1 / 10), dueDate = 0\<rparr>] 0
     \<noteq> computeStats
       [\<lparr>status = paid, total = roundToDouble (1 / 10), dueDate = 0\<rparr>,
        \<lparr>status = paid, total = roundToDouble (1 / 5), dueDate = 0\<rparr>,
        \<lparr>status = paid, total = roundToDouble (3 / 10), dueDate = 0\<rparr>] 0"
    by (rule contrapos_nn) (rule arg_cong)
  moreover have "mset [\<lparr>status = paid, total = roundToDouble (3 / 10), dueDate = 0\<rparr>,
         \<lparr>status = paid, total = roundToDouble (1 / 5), dueDate = 0\<rparr>,
         \<lparr>status = paid, total = roundToDouble (1 / 10), dueDate = (0::int)\<rparr>]
     = mset [\<lparr>status = paid, total = roundToDouble (1 / 10), dueDate = 0\<rparr>,
             \<lparr>status = paid, total = roundToDouble (1 / 5), dueDate = 0\<rparr>,
             \<lparr>status = paid, total = roundToDouble (3 / 10), dueDate = 0\<rparr>]"
    by (simp add: add_mset_commute)
  ultimately show ?thesis by (rule conjI [rotated])
qed

text \<open>
  C5, amended: for every list of invoices, every permutation of it and every instant,
  the four counters are the same on both lists; and when every total is a non-negative
  whole number and the totals add up to less than \<open>2^53\<close>, so that no addition rounds,
  the whole statistics record is the same.
\<close>

theorem counters_permutation_invariant:
  assumes perm: "mset invoices' = mset invoices"
  shows "totalInvoices (computeStats invoices' today) = totalInvoices (computeStats invoices today)
       \<and> paidInvoices (computeStats invoices' today) = paidInvoices (computeStats invoices today)
       \<and> unpaidInvoices (computeStats invoices' today)
           = unpaidInvoices (computeStats invoices today)
       \<and> overdueInvoices (computeStats invoices' today)
           = overdueInvoices (computeStats invoices today)
       \<and> (list_all isWhole (map total invoices)
            \<and> sum_list (map wholeValue (map total invoices)) < 2 ^ 53
          \<longrightarrow> computeStats invoices' today = computeStats invoices today)"
proof -
  have len: "length invoices' = length invoices" using perm by (rule mset_eq_length)
  have counts: "length (filter P invoices') = length (filter P invoices)" for P
    using perm by (rule length_filter_permuted)
  have sums: "foldl js_add (Finite 0) (map total (filter P invoices'))
                = foldl js_add (Finite 0) (map total (filter P invoices))"
    if whole: "list_all isWhole (map total invoices)"
      and bound: "sum_list (map wholeValue (map total invoices)) < 2 ^ 53" for P
  proof -
    have "sum_list (map (\<lambda>i. wholeValue (total i)) (filter P invoices'))
            = sum_list (map (\<lambda>i. wholeValue (total i)) (filter P invoices))"
      using perm by (rule sum_list_permuted)
    then show ?thesis
      unfolding whole_sum [OF whole bound] whole_sum [OF whole_permuted [OF perm whole bound]]
      by (simp add: comp_def)
  qed
  show ?thesis
    unfolding computeStats_closed_form using len counts sums by simp
qed

text \<open>A paid invoice of 100 and a sent one of 50, in both orders.\<close>

theorem counters_permutation_invariant_witness:
  "mset [\<lparr>status = sent, total = Finite 50, dueDate = 7\<rparr>,
         \<lparr>status = paid, total = Finite 100, dueDate = 5\<rparr>]
     = mset [\<lparr>status = paid, total = Finite 100, dueDate = 5\<rparr>,
             \<lparr>status = sent, total = Finite 50, dueDate = 7\<rparr>]
   \<and> list_all isWhole [Finite 100, Finite 50]
   \<and> wholeValue (Finite 100) + wholeValue (Finite 50) < 2 ^ 53
   \<and> computeStats [\<lparr>status = sent, total = Finite 50, dueDate = 7\<rparr>,
                    \<lparr>status = paid, total = Finite 100, dueDate = 5\<rparr>] 10
     = computeStats [\<lparr>status = paid, total = Finite 100, dueDate = 5\<rparr>,
                     \<lparr>status = sent, total = Finite 50, dueDate = 7\<rparr>] 10"
  using counters_permutation_invariant
    [of "[\<lparr>status = sent, total = Finite 50, dueDate = 7\<rparr>,
          \<lparr>status = paid, total = Finite 100, dueDate = 5\<rparr>]"
        "[\<lparr>status = paid, total = Finite 100, dueDate = 5\<rparr>,
          \<lparr>status = sent, total = Finite 50, dueDate = 7\<rparr>]" 10]
  by (simp add: isWhole_def wholeValue_def add_mset_commute)

text \<open>
  C10, as stated, fails: with a sent invoice of 0.1 followed by paid invoices of 0.2
  and 0.3, \<open>totalRevenue + outstandingAmount\<close> is 0.5 + 0.1 = 0.6, which is neither
  the totals added in the order of the array (0.6000000000000001) nor the exact sum of
  the three binary64 totals.
\<close>

theorem revenue_plus_outstanding_counterexample:
  "js_add (totalRevenue (computeStats
          [\<lparr>status = sent, total = roundToDouble (1 / 10), dueDate = 0\<rparr>,
           \<lparr>status = paid, total = roundToDouble (1 / 5), dueDate = 0\<rparr>,
           \<lparr>status = paid, total = roundToDouble (3 / 10), dueDate = 0\<rparr>] 0))
        (outstandingAmount (computeStats
          [\<lparr>status = sent, total = roundToDouble (1 / 10), dueDate = 0\<rparr>,
           \<lparr>status = paid, total = roundToDouble (1 / 5), dueDate = 0\<rparr>,
           \<lparr>status = paid, total = roundToDouble (3 / 10), dueDate = 0\<rparr>] 0))
     \<noteq> foldl js_add (Finite 0)
         [roundToDouble (1 / 10), roundToDouble (1 / 5), roundToDouble (3 / 10)]
   \<and> js_add (totalRevenue (computeStats
          [\<lparr>status = sent, total = roundToDouble (1 / 10), dueDate = 0\<rparr>,
           \<lparr>status = paid, total = roundToDouble (1 / 5), dueDate = 0\<rparr>,
           \<lparr>status = paid, total = roundToDouble (3 / 10), dueDate = 0\<rparr>] 0))
        (outstandingAmount (computeStats
          [\<lparr>status = sent, total = roundToDouble (1 / 10), dueDate = 0\<rparr>,
           \<lparr>status = paid, total = roundToDouble (1 / 5), dueDate = 0\<rparr>,
           \<lparr>status = paid, total = roundToDouble (3 / 10), dueDate = 0\<rparr>] 0))
     \<noteq> Finite (exactValue (roundToDouble (1 / 10)) + exactValue (roundToDouble (1 / 5))
                 + exactValue (roundToDouble (3 / 10)))"
  by (simp add: computeStats_def initialStats_def tally_def decimal_sums exactValue_def)

text \<open>
  C10, amended: for every list of invoices whose totals are non-negative whole numbers
  adding up to less than \<open>2^53\<close>, and every instant, \<open>totalRevenue + outstandingAmount\<close>
  is the sum of the totals of all the invoices, both the exact sum and the one obtained
  by adding them in the order of the array.
\<close>

theorem revenue_plus_outstanding_whole:
  assumes whole: "list_all isWhole (map total invoices)"
    and bound: "sum_list (map wholeValue (map total invoices)) < 2 ^ 53"
  shows "js_add (totalRevenue (computeStats invoices today))
                (outstandingAmount (computeStats invoices today))
           = Finite (sum_list (map exactValue (map total invoices)))
       \<and> js_add (totalRevenue (computeStats invoices today))
                (outstandingAmount (computeStats invoices today))
           = foldl js_add (Finite 0) (map total invoices)"
proof -
  define P where "P = sum_list (map wholeValue (map total (filter (\<lambda>i. status i = paid) invoices)))"
  define U where "U = sum_list (map wholeValue (map total (filter (\<lambda>i. status i \<noteq> paid) invoices)))"
  define S where "S = sum_list (map wholeValue (map total invoices))"
  have split: "P + U = S"
    unfolding P_def U_def S_def map_map by (rule sum_list_split_filter)
  have revenue: "totalRevenue (computeStats invoices today) = Finite (of_nat P)"
    unfolding P_def computeStats_closed_form using whole_sum [OF whole bound] by simp
  have outstanding: "outstandingAmount (computeStats invoices today) = Finite (of_nat U)"
    unfolding U_def computeStats_closed_form using whole_sum [OF whole bound] by simp
  have "js_add (Finite (of_nat P)) (Finite (of_nat U)) = roundToDouble (of_nat (P + U))"
    by simp
  also have "\<dots> = Finite (of_nat S)"
    using bound unfolding split S_def [symmetric] by (rule roundToDouble_of_nat)
  finally have sum: "js_add (totalRevenue (computeStats invoices today))
      (outstandingAmount (computeStats invoices today)) = Finite (of_nat S)"
    unfolding revenue outstanding .
  have exact: "sum_list (map exactValue (map total invoices)) = of_nat S"
    unfolding S_def using whole by (rule exact_sum_whole)
  have "foldl js_add (Finite 0) (map total (filter (\<lambda>i. True) invoices)) = Finite (of_nat S)"
    unfolding S_def using whole_sum [OF whole bound, of "\<lambda>i. True"] by simp
  then have in_order: "foldl js_add (Finite 0) (map total invoices) = Finite (of_nat S)"
    by simp
  show ?thesis unfolding sum exact in_order by simp
qed

text \<open>A paid invoice of 100 and a sent one of 50: revenue and outstanding add up to 150.\<close>

theorem revenue_plus_outstanding_whole_witness:
  "list_all isWhole [Finite 100, Finite 50]
   \<and> wholeValue (Finite 100) + wholeValue (Finite 50) < 2 ^ 53
   \<and> js_add (totalRevenue (computeStats
          [\<lparr>status = paid, total = Finite 100, dueDate = 5\<rparr>,
           \<lparr>status = sent, total = Finite 50, dueDate = 7\<rparr>] 10))
        (outstandingAmount (computeStats
          [\<lparr>status = paid, total = Finite 100, dueDate = 5\<rparr>,
           \<lparr>status = sent, total = Finite 50, dueDate = 7\<rparr>] 10))
     = Finite 150"
  using revenue_plus_outstanding_whole
    [of "[\<lparr>status = paid, total = Finite 100, dueDate = 5\<rparr>,
          \<lparr>status = sent, total = Finite 50, dueDate = 7\<rparr>]" 10]
  by (simp add: isWhole_def wholeValue_def exactValue_def)

section \<open>The call\<close>

lemma getUserInvoices_cases:
  "getUserInvoices userId w =
     (case queryInvoices w userId of
        Inr invoices \<Rightarrow> (Inr invoices, w)
      | Inl e \<Rightarrow>
          (Inl (Error (if message e = [] then ''Failed to fetch invoices'' else message e)),
           w\<lparr>console := console w @ [(''Error fetching invoices:'', e)]\<rparr>))"
  by (simp add: getUserInvoices_def)

lemma getInvoiceStats_cases:
  "getInvoiceStats userId w =
     (case queryInvoices w userId of
        Inr invoices \<Rightarrow> (Inr (computeStats invoices (clock w)), w)
      | Inl e \<Rightarrow>
          (Inl (Error (if message e = [] then ''Failed to fetch invoices'' else message e)),
           w\<lparr>console := console w @
              [(''Error fetching invoices:'', e),
               (''Error calculating invoice stats:'',
                Error (if message e = [] then ''Failed to fetch invoices''
                       else message e))]\<rparr>))"
  by (cases "queryInvoices w userId") (simp_all add: getInvoiceStats_def getUserInvoices_cases)

text \<open>
  C8, as stated, fails: the caller supplies no instant. The same call, for the same
  user with the same stored invoice, counts the invoice as overdue or not according to
  the clock that \<open>new Date()\<close> reads.
\<close>

theorem clock_counterexample:
  "fst (getInvoiceStats ''u1''
      \<lparr>queryInvoices = answering [(''u1'', [\<lparr>status = sent, total = Finite 50, dueDate = 2\<rparr>])],
       clock = 1, console = []\<rparr>)
   \<noteq> fst (getInvoiceStats ''u1''
      \<lparr>queryInvoices = answering [(''u1'', [\<lparr>status = sent, total = Finite 50, dueDate = 2\<rparr>])],
       clock = 3, console = []\<rparr>)"
  by (simp add: getInvoiceStats_def getUserInvoices_def answering_def computeStats_def
      initialStats_def tally_def)

text \<open>
  C8, amended: \<open>getInvoiceStats\<close> takes no instant; it reads the clock itself, and the
  invoices through \<open>getUserInvoices\<close>. Two calls that see the same outcome of the query
  and the same instant return the same result. A call whose query succeeds returns the
  aggregation of the fetched invoices at the clock's instant and leaves the world as it
  was. A call whose query throws returns an error carrying the message of the thrown one
  (\<open>Failed to fetch invoices\<close> when it has none) and changes the world only by two
  lines on the console: \<open>Error fetching invoices:\<close> with the thrown error, then
  \<open>Error calculating invoice stats:\<close> with the error \<open>getUserInvoices\<close> threw in turn.
\<close>

theorem getInvoiceStats_reads_world:
  assumes "queryInvoices w' userId = queryInvoices w userId" and "clock w' = clock w"
  shows "fst (getInvoiceStats userId w') = fst (getInvoiceStats userId w)
       \<and> getInvoiceStats userId w =
           (case queryInvoices w userId of
              Inr invoices \<Rightarrow> (Inr (computeStats invoices (clock w)), w)
            | Inl e \<Rightarrow>
                (Inl (Error (if message e = [] then ''Failed to fetch invoices'' else message e)),
                 w\<lparr>console := console w @
                    [(''Error fetching invoices:'', e),
                     (''Error calculating invoice stats:'',
                      Error (if message e = [] then ''Failed to fetch invoices''
                             else message e))]\<rparr>))"
proof -
  have "fst (getInvoiceStats userId w') = fst (getInvoiceStats userId w)"
    unfolding getInvoiceStats_cases using assms
    by (cases "queryInvoices w userId") simp_all
  then show ?thesis using getInvoiceStats_cases [of userId w] by simp
qed

text \<open>
  Two worlds with the same store and clock and different consoles, in which the query
  succeeds; and a world in which it throws an error without a message.
\<close>

theorem getInvoiceStats_reads_world_witness:
  "fst (getInvoiceStats ''u1''
      \<lparr>queryInvoices = answering [(''u1'', [\<lparr>status = sent, total = Finite 50, dueDate = 2\<rparr>])],
       clock = 3, console = [(''Error fetching invoices:'', Error ''offline'')]\<rparr>)
   = fst (getInvoiceStats ''u1''
      \<lparr>queryInvoices = answering [(''u1'', [\<lparr>status = sent, total = Finite 50, dueDate = 2\<rparr>])],
       clock = 3, console = []\<rparr>)
   \<and> getInvoiceStats ''u1''
      \<lparr>queryInvoices = answering [(''u1'', [\<lparr>status = sent, total = Finite 50, dueDate = 2\<rparr>])],
       clock = 3, console = []\<rparr>
     = (Inr (computeStats [\<lparr>status = sent, total = Finite 50, dueDate = 2\<rparr>] 3),
        \<lparr>queryInvoices = answering [(''u1'', [\<lparr>status = sent, total = Finite 50, dueDate = 2\<rparr>])],
         clock = 3, console = []\<rparr>)
   \<and> getInvoiceStats ''u1'' \<lparr>queryInvoices = failing (Error []), clock = 3, console = []\<rparr>
     = (Inl (Error ''Failed to fetch invoices''),
        \<lparr>queryInvoices = failing (Error []), clock = 3,
         console = [(''Error fetching invoices:'', Error []),
                    (''Error calculating invoice stats:'', Error ''Failed to fetch invoices'')]\<rparr>)"
  using getInvoiceStats_reads_world
    [of "\<lparr>queryInvoices = answering [(''u1'', [\<lparr>status = sent, total = Finite 50, dueDate = 2\<rparr>])],
          clock = 3, console = [(''Error fetching invoices:'', Error ''offline'')]\<rparr>"
        "''u1''"
        "\<lparr>queryInvoices = answering [(''u1'', [\<lparr>status = sent, total = Finite 50, dueDate = 2\<rparr>])],
          clock = 3, console = []\<rparr>"]
    getInvoiceStats_reads_world
    [of "\<lparr>queryInvoices = failing (Error []), clock = 3, console = []\<rparr>"
        "''u1''"
        "\<lparr>queryInvoices = failing (Error []), clock = 3, console = []\<rparr>"]
  by (simp add: answering_def failing_def)

subsection \<open>Well-typed invoices at run time\<close>

lemma statusLiteral_paid: "statusLiteral s = ''paid'' \<longleftrightarrow> s = paid"
  by (cases s) simp_all

lemma tallyRaw_well_typed:
  "tallyRaw stringToNumber today (rawInvoice invoice) (rawStats stats)
     = Inr (rawStats (tally today invoice stats))"
  by (simp add: tallyRaw_def rawInvoice_def rawStats_def tally_def Let_def statusLiteral_paid)

lemma forEachRaw_well_typed:
  "forEachRaw stringToNumber today (map rawInvoice invoices) (rawStats stats)
     = Inr (rawStats (fold (tally today) invoices stats))"
  by (induction invoices arbitrary: stats) (simp_all add: tallyRaw_well_typed)

text \<open>
  The loop on run-time values does throw on some ill-typed input, a total that is a
  bigint for one, and it silently leaves the numbers on other, a total that is a string
  for one.
\<close>

lemma bigint_total_throws:
  "computeStatsRaw stringToNumber
     [\<lparr>statusValue = JString ''paid'', totalValue = JBigInt 100,
       dueDateValue = JDate (Some 0)\<rparr>] 0
   = Inl TypeError"
  by (simp add: computeStatsRaw_def tallyRaw_def)

lemma string_total_concatenates:
  "computeStatsRaw stringToNumber
     [\<lparr>statusValue = JString ''paid'', totalValue = JString ''100'',
       dueDateValue = JDate (Some 0)\<rparr>] 0
   = Inr \<lparr>invoiceCount = 1, paidCount = 1, unpaidCount = 0, overdueCount = 0,
          revenueSum = StringSum, outstandingSum = NumberSum (Finite 0)\<rparr>"
  by (simp add: computeStatsRaw_def tallyRaw_def)

text \<open>
  C9: on every list of well-typed invoices (a status of the enumeration, a number, a
  date) and at every instant the computation is total and raises no error: the loop on
  run-time values, which can throw on other input, returns, and what it returns is the
  statistics \<open>computeStats\<close> gives. So \<open>getInvoiceStats\<close> fails exactly when the query
  of \<open>getUserInvoices\<close> does.
\<close>

theorem well_typed_never_throws:
  "computeStatsRaw stringToNumber (map rawInvoice invoices) today
     = Inr (rawStats (computeStats invoices today))
   \<and> isl (fst (getInvoiceStats userId w)) = isl (queryInvoices w userId)"
proof -
  have "rawStats (initialStats invoices) =
      \<lparr>invoiceCount = length (map rawInvoice invoices), paidCount = 0, unpaidCount = 0,
       overdueCount = 0, revenueSum = NumberSum (Finite 0),
       outstandingSum = NumberSum (Finite 0)\<rparr>"
    by (simp add: rawStats_def initialStats_def)
  then have "computeStatsRaw stringToNumber (map rawInvoice invoices) today
     = Inr (rawStats (computeStats invoices today))"
    unfolding computeStatsRaw_def computeStats_def
    using forEachRaw_well_typed [of stringToNumber today invoices "initialStats invoices"]
    by simp
  moreover have "isl (fst (getInvoiceStats userId w)) = isl (queryInvoices w userId)"
    unfolding getInvoiceStats_cases by (cases "queryInvoices w userId") simp_all
  ultimately show ?thesis by simp
qed

end
